theory Spec2Isabelle
  imports Complex_Main
begin

section \<open>The hybrid quantum-classical notebook: data model\<close>

text \<open>
  The notebook defines \<^verbatim>\<open>to_numbers\<close>, the class \<^verbatim>\<open>QiskitCircuit\<close> (a one-qubit
  circuit Hadamard, barrier, RY, barrier, measurement, run on a simulator), the autograd
  function \<^verbatim>\<open>TorchCircuit\<close> (forward and backward) and the tail of \<^verbatim>\<open>Net.forward\<close>.

  Python floats are modelled as real numbers (no rounding), Python integers as \<open>int\<close>.
  Every exception the code can raise is a value of \<open>error\<close>; a function that can raise
  returns \<open>error + 'a\<close> with \<open>Inl\<close> the exception.
\<close>

datatype error = ValueError | IndexError | ZeroDivisionError | AttributeError | RuntimeError

text \<open>
  A two-dimensional tensor is the list of its rows; a one-dimensional tensor, a numpy
  vector and a Python list of floats are lists of reals.
\<close>

type_synonym tensor = "real list list"

text \<open>
  A rotation parameter of a gate is either the symbolic \<^verbatim>\<open>Parameter('Theta')\<close> or, once
  bound, a number.
\<close>

datatype param = Parameter string | Number real

datatype gate_name = H | Barrier | RY | Measure

record instruction =
  name :: gate_name
  params :: "param list"

text \<open>
  \<^verbatim>\<open>circuit.data\<close> is a list of triples (instruction, qubit arguments, classical-bit
  arguments); \<^verbatim>\<open>data[2][0]\<close> is the instruction of the third entry.
\<close>

type_synonym circuit_data = "(instruction \<times> nat list \<times> nat list) list"

record QiskitCircuit =
  theta :: param
  shots :: int
  circuit :: circuit_data

text \<open>
  The result of one execution: a dictionary from outcome bitstring to count, as an
  association list in iteration order (a dictionary has distinct keys, so that iterating
  over the keys and looking each one up is iterating over the pairs).
\<close>

type_synonym counts = "(string \<times> int) list"

text \<open>
  The simulator is outside the repository and samples at random. It is a parameter of
  the model: a function of the number of executions performed so far (so that two
  executions of the same circuit may differ, as sampling noise does), of the executed
  circuit and of the shot count.
\<close>

type_synonym backend = "nat \<Rightarrow> circuit_data \<Rightarrow> int \<Rightarrow> counts"

text \<open>
  The world: the tensors that live on the heap (a reference is an index into \<open>heap\<close>;
  the input of forward and the tensors saved for backward are such references, since
  Python passes and stores objects by reference) and the log of every circuit execution
  sent to the simulator, oldest first.
\<close>

record world =
  heap :: "tensor list"
  executions :: "circuit_data list"

text \<open>
  The autograd context: the attribute \<^verbatim>\<open>QiskitCirc\<close> (absent until forward creates it)
  and the tuple \<^verbatim>\<open>saved_tensors\<close> of references (empty until \<^verbatim>\<open>save_for_backward\<close>).
\<close>

record ctx =
  QiskitCirc :: "QiskitCircuit option"
  saved_tensors :: "nat list"

section \<open>Helpers of the embedding\<close>

text \<open>A list comprehension whose elements may raise: the first exception wins.\<close>

fun collect :: "(error + 'a) list \<Rightarrow> error + 'a list" where
  "collect [] = Inr []"
| "collect (x # xs) =
     (case x of
        Inl e \<Rightarrow> Inl e
      | Inr v \<Rightarrow> (case collect xs of Inl e \<Rightarrow> Inl e | Inr vs \<Rightarrow> Inr (v # vs)))"

text \<open>\<^verbatim>\<open>float(c)\<close> on a one-character string: a decimal digit, or ValueError.\<close>

definition digit_table :: "(char \<times> real) list" where
  "digit_table =
     [(CHR ''0'', 0), (CHR ''1'', 1), (CHR ''2'', 2), (CHR ''3'', 3), (CHR ''4'', 4),
      (CHR ''5'', 5), (CHR ''6'', 6), (CHR ''7'', 7), (CHR ''8'', 8), (CHR ''9'', 9)]"

definition float_char :: "char \<Rightarrow> error + real" where
  "float_char c = (case map_of digit_table c of None \<Rightarrow> Inl ValueError | Some d \<Rightarrow> Inr d)"

text \<open>
  Multiplication of tensors with broadcasting, on one axis: equal lengths multiply
  pointwise, a length-one axis is repeated, anything else is a RuntimeError.
\<close>

definition broadcast2 :: "('a \<Rightarrow> 'b \<Rightarrow> error + 'c) \<Rightarrow> 'a list \<Rightarrow> 'b list \<Rightarrow> error + 'c list" where
  "broadcast2 f xs ys =
     (if length xs = length ys then collect (map2 f xs ys)
      else if length xs = 1 then collect (map (f (hd xs)) ys)
      else if length ys = 1 then collect (map (\<lambda>x. f x (hd ys)) xs)
      else Inl RuntimeError)"

definition mul_row :: "real list \<Rightarrow> real list \<Rightarrow> error + real list" where
  "mul_row = broadcast2 (\<lambda>x y. Inr (x * y))"

definition tensor_mul :: "tensor \<Rightarrow> tensor \<Rightarrow> error + tensor" where
  "tensor_mul = broadcast2 mul_row"

section \<open>to_numbers\<close>

text \<open>
  \<^verbatim>\<open>
  def to_numbers(tensor_list):
      num_list = []
      for tensor in tensor_list:
          num_list += [tensor.item()]
      return num_list
  \<close>
  Iterating over a one-dimensional tensor yields its entries; \<^verbatim>\<open>item()\<close> of an entry
  is the number. The result is a fresh list.
\<close>

definition to_numbers :: "real list \<Rightarrow> real list" where
  "to_numbers tensor_list = foldl (\<lambda>num_list t. num_list @ [t]) [] tensor_list"

section \<open>QiskitCircuit\<close>

text \<open>
  \<^verbatim>\<open>
  def create_circuit():
      qr = QuantumRegister(1,'q'); cr = ClassicalRegister(1,'c')
      ckt = QuantumCircuit(qr,cr)
      ckt.h(qr[0]); ckt.barrier(); ckt.ry(self.theta,qr[0]); ckt.barrier()
      ckt.measure(qr,cr)
      return ckt
  \<close>
\<close>

definition create_circuit :: "param \<Rightarrow> circuit_data" where
  "create_circuit th =
     [(\<lparr>name = H, params = []\<rparr>, [0], []),
      (\<lparr>name = Barrier, params = []\<rparr>, [0], []),
      (\<lparr>name = RY, params = [th]\<rparr>, [0], []),
      (\<lparr>name = Barrier, params = []\<rparr>, [0], []),
      (\<lparr>name = Measure, params = []\<rparr>, [0], [0])]"

definition QiskitCircuit_init :: "int \<Rightarrow> QiskitCircuit" where
  "QiskitCircuit_init sh =
     \<lparr>theta = Parameter ''Theta'', shots = sh, circuit = create_circuit (Parameter ''Theta'')\<rparr>"

text \<open>
  \<^verbatim>\<open>
  def N_qubit_expectation_Z(self,counts, shots, nr_qubits):
      expects = np.zeros(nr_qubits)
      for key in counts.keys():
          perc = counts[key]/shots
          check = np.array([(float(key[i])-1/2)*2*perc for i in range(nr_qubits)])
          expects += check
      return expects
  \<close>
  \<^verbatim>\<open>counts[key]/shots\<close> raises ZeroDivisionError when \<^verbatim>\<open>shots\<close> is 0, \<^verbatim>\<open>key[i]\<close> raises
  IndexError past the end of the key, \<^verbatim>\<open>float\<close> raises ValueError on a non-digit.
\<close>

definition check_entry :: "string \<Rightarrow> real \<Rightarrow> nat \<Rightarrow> error + real" where
  "check_entry key perc i =
     (if i < length key then
        (case float_char (key ! i) of
           Inl e \<Rightarrow> Inl e
         | Inr b \<Rightarrow> Inr ((b - 1 / 2) * 2 * perc))
      else Inl IndexError)"

fun expectation_loop :: "counts \<Rightarrow> int \<Rightarrow> nat \<Rightarrow> real list \<Rightarrow> error + real list" where
  "expectation_loop [] sh nr_qubits expects = Inr expects"
| "expectation_loop ((key, c) # rest) sh nr_qubits expects =
     (if sh = 0 then Inl ZeroDivisionError
      else
        (case collect (map (check_entry key (real_of_int c / real_of_int sh)) [0..<nr_qubits]) of
           Inl e \<Rightarrow> Inl e
         | Inr check \<Rightarrow> expectation_loop rest sh nr_qubits (map2 (+) expects check)))"

definition N_qubit_expectation_Z :: "counts \<Rightarrow> int \<Rightarrow> nat \<Rightarrow> error + real list" where
  "N_qubit_expectation_Z cs sh nr_qubits = expectation_loop cs sh nr_qubits (replicate nr_qubits 0)"

text \<open>
  \<^verbatim>\<open>
  def bind(self, parameters):
      [self.theta] = to_numbers(parameters)
      self.circuit.data[2][0]._params = to_numbers(parameters)
  \<close>
  The unpacking assignment raises ValueError unless the list has exactly one element,
  before anything is modified.
\<close>

definition bind :: "QiskitCircuit \<Rightarrow> real list \<Rightarrow> error + QiskitCircuit" where
  "bind self parameters =
     (case to_numbers parameters of
        [t] \<Rightarrow>
          (let self1 = self\<lparr>theta := Number t\<rparr> in
           if 2 < length (circuit self1) then
             (case circuit self1 ! 2 of
                (ins, qargs, cargs) \<Rightarrow>
                  Inr (self1\<lparr>circuit := (circuit self1)
                         [2 := (ins\<lparr>params := map Number (to_numbers parameters)\<rparr>, qargs, cargs)]\<rparr>))
           else Inl IndexError)
      | _ \<Rightarrow> Inl ValueError)"

text \<open>
  \<^verbatim>\<open>
  def run(self, i):
      self.bind(i)
      backend = Aer.get_backend('qasm_simulator')
      job_sim = execute(self.circuit,backend,shots=self.shots)
      result_sim = job_sim.result()
      counts = result_sim.get_counts(self.circuit)
      return self.N_qubit_expectation_Z(counts,self.shots,1)
  \<close>
  One call of \<^verbatim>\<open>execute\<close> is one entry appended to the log of executions.
\<close>

definition run :: "backend \<Rightarrow> world \<Rightarrow> QiskitCircuit \<Rightarrow> real list
    \<Rightarrow> error + (world \<times> QiskitCircuit \<times> real list)" where
  "run sim w self i =
     (case bind self i of
        Inl e \<Rightarrow> Inl e
      | Inr self1 \<Rightarrow>
          (let cs = sim (length (executions w)) (circuit self1) (shots self1);
               w1 = w\<lparr>executions := executions w @ [circuit self1]\<rparr>
           in case N_qubit_expectation_Z cs (shots self1) 1 of
                Inl e \<Rightarrow> Inl e
              | Inr expects \<Rightarrow> Inr (w1, self1, expects)))"

section \<open>TorchCircuit\<close>

text \<open>
  \<^verbatim>\<open>
  def forward(ctx, i):
      if not hasattr(ctx, 'QiskitCirc'):
          ctx.QiskitCirc = QiskitCircuit(shots=100)
      exp_value = ctx.QiskitCirc.run(i[0])
      result = torch.tensor([exp_value])
      ctx.save_for_backward(result, i)
      return result
  \<close>
  The input \<^verbatim>\<open>i\<close> is a reference to a tensor on the heap; \<^verbatim>\<open>result\<close> is a new tensor,
  allocated at the end of the heap; \<^verbatim>\<open>save_for_backward\<close> stores the two references.
  A reference past the end of the heap does not exist in Python; the model answers
  RuntimeError there.
\<close>

definition forward :: "backend \<Rightarrow> world \<Rightarrow> ctx \<Rightarrow> nat \<Rightarrow> error + (world \<times> ctx \<times> nat)" where
  "forward sim w c i =
     (let c1 = (if QiskitCirc c = None then c\<lparr>QiskitCirc := Some (QiskitCircuit_init 100)\<rparr> else c)
      in if length (heap w) \<le> i then Inl RuntimeError
         else
           (case heap w ! i of
              [] \<Rightarrow> Inl IndexError
            | i0 # _ \<Rightarrow>
                (case run sim w (the (QiskitCirc c1)) i0 of
                   Inl e \<Rightarrow> Inl e
                 | Inr (w1, qc1, exp_value) \<Rightarrow>
                     (let result = length (heap w1);
                          w2 = w1\<lparr>heap := heap w1 @ [[exp_value]]\<rparr>
                      in Inr (w2, c1\<lparr>QiskitCirc := Some qc1, saved_tensors := [result, i]\<rparr>, result)))))"

text \<open>
  \<^verbatim>\<open>
  def backward(ctx, grad_output):
      s = np.pi/2
      forward_tensor, i = ctx.saved_tensors
      input_numbers = to_numbers(i[0])
      gradient = []
      for k in range(len(input_numbers)):
          input_plus_s = input_numbers
          input_plus_s[k] = input_numbers[k] + s  # Shift up by s
          exp_value_plus = ctx.QiskitCirc.run(torch.tensor(input_plus_s))[0]
          result_plus_s = torch.tensor([exp_value_plus])
          input_minus_s = input_numbers
          input_minus_s[k] = input_numbers[k] - s # Shift down by s
          exp_value_minus = ctx.QiskitCirc.run(torch.tensor(input_minus_s))[0]
          result_minus_s = torch.tensor([exp_value_minus])
          gradient_result = (result_plus_s - result_minus_s)
          gradient.append(gradient_result)
      result = torch.tensor([gradient])
      return result.float() * grad_output.float()
  \<close>
  \<^verbatim>\<open>input_plus_s = input_numbers\<close> and \<^verbatim>\<open>input_minus_s = input_numbers\<close> bind new names
  to the same list object, so both indexed assignments update the one list
  \<^verbatim>\<open>input_numbers\<close>; the loop state carries that list. \<^verbatim>\<open>torch.tensor(...)\<close> copies
  the list, so each run receives the list's value at that moment.
\<close>

definition s :: real where
  "s = pi / 2"

text \<open>
  \<^verbatim>\<open>ctx.QiskitCirc.run(...)\<close>: the attribute is looked up at each call (AttributeError
  when the context has none), and \<^verbatim>\<open>run\<close> updates the evaluator object that the
  context holds.
\<close>

definition QiskitCirc_run :: "backend \<Rightarrow> world \<Rightarrow> ctx \<Rightarrow> real list
    \<Rightarrow> error + (world \<times> ctx \<times> real list)" where
  "QiskitCirc_run sim w c i =
     (case QiskitCirc c of
        None \<Rightarrow> Inl AttributeError
      | Some qc \<Rightarrow>
          (case run sim w qc i of
             Inl e \<Rightarrow> Inl e
           | Inr (w1, qc1, expects) \<Rightarrow> Inr (w1, c\<lparr>QiskitCirc := Some qc1\<rparr>, expects)))"

fun backward_loop :: "backend \<Rightarrow> nat list \<Rightarrow> world \<times> ctx \<times> real list \<times> real list
    \<Rightarrow> error + (world \<times> ctx \<times> real list \<times> real list)" where
  "backward_loop sim [] st = Inr st"
| "backward_loop sim (k # ks) (w, c, input_numbers, gradient) =
     (let input_numbers1 = input_numbers[k := input_numbers ! k + s] in
      case QiskitCirc_run sim w c input_numbers1 of
        Inl e \<Rightarrow> Inl e
      | Inr (w1, c1, expects_plus) \<Rightarrow>
          (case expects_plus of
             [] \<Rightarrow> Inl IndexError
           | exp_value_plus # _ \<Rightarrow>
               (let input_numbers2 = input_numbers1[k := input_numbers1 ! k - s] in
                case QiskitCirc_run sim w1 c1 input_numbers2 of
                  Inl e \<Rightarrow> Inl e
                | Inr (w2, c2, expects_minus) \<Rightarrow>
                    (case expects_minus of
                       [] \<Rightarrow> Inl IndexError
                     | exp_value_minus # _ \<Rightarrow>
                         backward_loop sim ks
                           (w2, c2, input_numbers2, gradient @ [exp_value_plus - exp_value_minus])))))"

definition backward :: "backend \<Rightarrow> world \<Rightarrow> ctx \<Rightarrow> tensor \<Rightarrow> error + (world \<times> ctx \<times> tensor)" where
  "backward sim w c grad_output =
     (case saved_tensors c of
        [forward_tensor, i] \<Rightarrow>
          (if length (heap w) \<le> i then Inl RuntimeError
           else
             (case heap w ! i of
                [] \<Rightarrow> Inl IndexError
              | i0 # _ \<Rightarrow>
                  (let input_numbers = to_numbers i0 in
                   case backward_loop sim [0..<length input_numbers] (w, c, input_numbers, []) of
                     Inl e \<Rightarrow> Inl e
                   | Inr (w1, c1, input_numbers1, gradient) \<Rightarrow>
                       (case tensor_mul [gradient] grad_output of
                          Inl e \<Rightarrow> Inl e
                        | Inr g \<Rightarrow> Inr (w1, c1, g)))))
      | _ \<Rightarrow> Inl ValueError)"

section \<open>The tail of Net.forward\<close>

text \<open>
  \<^verbatim>\<open>
  x = qc(x)
  x = (x+1)/2  # Normalise the inputs to 1 or 0
  x = torch.cat((x, 1-x), -1)
  \<close>
  The two lines after the quantum layer, on its output: an affine map of every entry,
  then concatenation with the complement along the last axis.
\<close>

definition Net_forward_tail :: "tensor \<Rightarrow> tensor" where
  "Net_forward_tail x =
     (let x1 = map (map (\<lambda>e. (e + 1) / 2)) x
      in map (\<lambda>row. row @ map (\<lambda>p. 1 - p) row) x1)"

section \<open>Notions used in the statements\<close>

text \<open>
  A measurement outcome is a bitstring with at least one character per qubit; a
  frequency mapping is valid for a shot count when its keys are such outcomes, its counts
  are non-negative and they sum to the shot count.
\<close>

definition is_bit :: "char \<Rightarrow> bool" where
  "is_bit b = (b = CHR ''0'' \<or> b = CHR ''1'')"

definition outcome_keys :: "nat \<Rightarrow> counts \<Rightarrow> bool" where
  "outcome_keys nr_qubits cs =
     list_all (\<lambda>(key, c). nr_qubits \<le> length key \<and> list_all is_bit key) cs"

definition valid_counts :: "nat \<Rightarrow> counts \<Rightarrow> int \<Rightarrow> bool" where
  "valid_counts nr_qubits cs sh =
     (outcome_keys nr_qubits cs \<and> list_all (\<lambda>(key, c). 0 \<le> c) cs \<and> sum_list (map snd cs) = sh)"

text \<open>
  The sum over all observed outcomes of a sign per measured bit, weighted by the
  outcome's frequency \<open>count / shots\<close>, for the qubit at position \<open>q\<close> of the key.
\<close>

definition weighted_sum :: "(char \<Rightarrow> real) \<Rightarrow> counts \<Rightarrow> int \<Rightarrow> nat \<Rightarrow> real" where
  "weighted_sum sign cs sh q = (\<Sum>(key, c)\<leftarrow>cs. sign (key ! q) * (real_of_int c / real_of_int sh))"

text \<open>The sign that the code's formula \<^verbatim>\<open>(float(key[i])-1/2)*2\<close> gives a bit.\<close>

definition Z_sign :: "char \<Rightarrow> real" where
  "Z_sign b = (if b = CHR ''0'' then - 1 else 1)"

text \<open>
  The sign as the specification words it: a measured "0" bit contributes +1 and a
  measured "1" bit contributes -1.
\<close>

definition spec_sign :: "char \<Rightarrow> real" where
  "spec_sign b = (if b = CHR ''0'' then 1 else - 1)"

text \<open>
  The angle vectors at which the logged executions were performed: the parameters of the
  instruction at position 2 of each executed circuit.
\<close>

definition bound_params :: "circuit_data \<Rightarrow> param list" where
  "bound_params cd = (case drop 2 cd of [] \<Rightarrow> [] | (ins, qargs, cargs) # _ \<Rightarrow> params ins)"

definition evaluated_at :: "world \<Rightarrow> param list list" where
  "evaluated_at w = map bound_params (executions w)"

definition gate_names :: "circuit_data \<Rightarrow> gate_name list" where
  "gate_names cd = map (\<lambda>(ins, qargs, cargs). name ins) cd"

text \<open>
  The input tensor that backward will read through the saved references, if any.
\<close>

definition saved_input :: "world \<Rightarrow> ctx \<Rightarrow> tensor option" where
  "saved_input w c =
     (case saved_tensors c of
        [forward_tensor, i] \<Rightarrow> (if i < length (heap w) then Some (heap w ! i) else None)
      | _ \<Rightarrow> None)"

text \<open>
  An in-place write by the caller to the tensor object behind a reference (such as
  \<^verbatim>\<open>x[0][0] = 1.0\<close> on the tensor that was passed to forward).
\<close>

definition tensor_assign :: "world \<Rightarrow> nat \<Rightarrow> tensor \<Rightarrow> world" where
  "tensor_assign w a t = w\<lparr>heap := (heap w)[a := t]\<rparr>"

text \<open>
  An example simulator for concrete evaluations: the \<open>n\<close>-th execution (counted from 0,
  capped at the shot count) measures "0" in \<open>n\<close> shots and "1" in all others, so that
  two executions of the same circuit give different counts.
\<close>

definition example_backend :: backend where
  "example_backend n cd sh = [(''0'', min (int n) sh), (''1'', sh - min (int n) sh)]"

definition fresh_ctx :: ctx where
  "fresh_ctx = \<lparr>QiskitCirc = None, saved_tensors = []\<rparr>"

section \<open>Basic facts\<close>

lemma foldl_snoc: "foldl (\<lambda>num_list t. num_list @ [t]) acc xs = acc @ xs"
  by (induction xs arbitrary: acc) simp_all

lemma to_numbers_id: "to_numbers xs = xs"
  by (simp add: to_numbers_def foldl_snoc)

lemma bind_wrong_length: "length parameters \<noteq> 1 \<Longrightarrow> bind self parameters = Inl ValueError"
  by (cases parameters; cases "tl parameters") (auto simp: bind_def to_numbers_id)

lemma bind_single:
  "2 < length (circuit self) \<Longrightarrow>
   bind self [t] = Inr (self\<lparr>theta := Number t,
      circuit := (circuit self)[2 := ((fst (circuit self ! 2))\<lparr>params := [Number t]\<rparr>, snd (circuit self ! 2))]\<rparr>)"
  by (simp add: bind_def to_numbers_id split: prod.splits)

section \<open>Wrong number of angles\<close>

text \<open>
  Claim C5. Evaluating the circuit (\<^verbatim>\<open>run\<close>, which starts with \<^verbatim>\<open>bind\<close>) at an angle
  vector whose length is not 1, the number of free parameters of the circuit, raises:
  the unpacking assignment \<^verbatim>\<open>[self.theta] = to_numbers(parameters)\<close> fails with Python's
  ValueError, which is the invalid-parameter-count error of the specification. In
  particular a vector of length 2 is refused.
\<close>

theorem run_InvalidParameterCount:
  "length angleVector \<noteq> 1 \<Longrightarrow> run sim w self angleVector = Inl ValueError"
  by (simp add: run_def bind_wrong_length)

theorem run_InvalidParameterCount_witness:
  "length [0, 1 :: real] \<noteq> 1 \<and>
   run (\<lambda>n c sh. [(''0'', sh)]) \<lparr>heap = [], executions = []\<rparr> (QiskitCircuit_init 100) [0, 1]
     = Inl ValueError"
  using run_InvalidParameterCount
    [of "[0, 1]" "\<lambda>n c sh. [(''0'', sh)]" "\<lparr>heap = [], executions = []\<rparr>" "QiskitCircuit_init 100"]
  by simp

section \<open>The two-class output\<close>

text \<open>
  Claim C9. For every expectation \<open>e\<close> that the quantum layer outputs (a 1 by 1 tensor),
  the model maps it to \<open>(e + 1) / 2\<close> and concatenates the complement, so that the final
  output is the pair \<open>((e + 1) / 2, 1 - (e + 1) / 2)\<close>, whose components sum to 1.
\<close>

theorem Net_forward_tail_pair:
  "Net_forward_tail [[e]] = [[(e + 1) / 2, 1 - (e + 1) / 2]] \<and>
   sum_list (hd (Net_forward_tail [[e]])) = 1"
  by (simp add: Net_forward_tail_def)

section \<open>The expectation of the measured bits\<close>

lemma collect_map_Inr:
  "(\<And>x. x \<in> set xs \<Longrightarrow> f x = Inr (g x)) \<Longrightarrow> collect (map f xs) = Inr (map g xs)"
  by (induction xs) simp_all

lemma float_char_bit: "is_bit b \<Longrightarrow> float_char b = Inr (if b = CHR ''0'' then 0 else 1)"
  by (auto simp: is_bit_def float_char_def digit_table_def)

lemma check_entry_bit:
  assumes "i < length key" "list_all is_bit key"
  shows "check_entry key perc i = Inr (Z_sign (key ! i) * perc)"
proof -
  have "is_bit (key ! i)" using assms by (simp add: list_all_length)
  then show ?thesis using assms(1) by (simp add: check_entry_def float_char_bit Z_sign_def)
qed

lemma map2_add_upt:
  "length acc = n \<Longrightarrow> map2 (+) acc (map g [0..<n]) = map (\<lambda>q. acc ! q + g q) [0..<n]"
  by (rule nth_equalityI) simp_all

lemma expectation_loop_sum:
  assumes "sh \<noteq> 0" "outcome_keys n cs" "length acc = n"
  shows "expectation_loop cs sh n acc
           = Inr (map (\<lambda>q. acc ! q + weighted_sum Z_sign cs sh q) [0..<n])"
  using assms(2,3)
proof (induction cs arbitrary: acc)
  case Nil
  have "map ((!) acc) [0..<length acc] = acc" by (rule map_nth)
  with Nil show ?case by (simp add: weighted_sum_def)
next
  case (Cons kc cs)
  obtain key c where kc: "kc = (key, c)" by (cases kc)
  from Cons.prems kc have key: "n \<le> length key" "list_all is_bit key"
    and rest: "outcome_keys n cs"
    by (simp_all add: outcome_keys_def)
  let ?perc = "real_of_int c / real_of_int sh"
  have chk: "collect (map (check_entry key ?perc) [0..<n])
               = Inr (map (\<lambda>q. Z_sign (key ! q) * ?perc) [0..<n])"
    using key by (intro collect_map_Inr check_entry_bit) simp_all
  let ?acc = "map (\<lambda>q. acc ! q + Z_sign (key ! q) * ?perc) [0..<n]"
  have "expectation_loop (kc # cs) sh n acc = expectation_loop cs sh n ?acc"
    using assms(1) Cons.prems(2) by (simp add: kc chk map2_add_upt)
  also have "\<dots> = Inr (map (\<lambda>q. ?acc ! q + weighted_sum Z_sign cs sh q) [0..<n])"
    using rest by (intro Cons.IH) simp_all
  also have "map (\<lambda>q. ?acc ! q + weighted_sum Z_sign cs sh q) [0..<n]
       = map (\<lambda>q. acc ! q + weighted_sum Z_sign (kc # cs) sh q) [0..<n]"
    by (simp add: kc weighted_sum_def)
  finally show ?case .
qed

lemma N_qubit_expectation_Z_sum:
  assumes "sh \<noteq> 0" "outcome_keys nr_qubits cs"
  shows "N_qubit_expectation_Z cs sh nr_qubits = Inr (map (weighted_sum Z_sign cs sh) [0..<nr_qubits])"
  using expectation_loop_sum [OF assms, of "replicate nr_qubits 0"]
  by (simp add: N_qubit_expectation_Z_def cong: map_cong)

text \<open>
  Claim C2, as the code has it. For every frequency mapping over measurement outcomes
  and every non-zero shot count, the expectation computed for each qubit position is the
  sum over all observed outcomes of the bit's sign weighted by the outcome's frequency
  \<open>count / shots\<close>, where a measured "0" bit has sign -1 and a measured "1" bit has
  sign +1 (the formula \<open>(bit - 1/2) * 2\<close>). The specification's wording gives the two
  signs the other way round.
\<close>

theorem N_qubit_expectation_Z_signs:
  assumes "sh \<noteq> 0" "outcome_keys nr_qubits cs"
  shows "N_qubit_expectation_Z cs sh nr_qubits = Inr (map (weighted_sum Z_sign cs sh) [0..<nr_qubits])
       \<and> Z_sign CHR ''0'' = - 1 \<and> Z_sign CHR ''1'' = 1"
  using N_qubit_expectation_Z_sum [OF assms] by (simp add: Z_sign_def)

theorem N_qubit_expectation_Z_signs_witness:
  "(100::int) \<noteq> 0 \<and> outcome_keys 1 [(''0'', 30), (''1'', 70)] \<and>
   N_qubit_expectation_Z [(''0'', 30), (''1'', 70)] 100 1 = Inr [2 / 5]"
  using N_qubit_expectation_Z_signs [of 100 1 "[(''0'', 30), (''1'', 70)]"]
  by (simp add: outcome_keys_def is_bit_def weighted_sum_def Z_sign_def)

text \<open>
  Claim C2 as worded fails when every shot measures "0": the code returns -1, the
  wording (+1 for a "0" bit) gives +1.
\<close>

theorem N_qubit_expectation_Z_zero_bit_counterexample:
  "N_qubit_expectation_Z [(''0'', 100)] 100 1 = Inr [- 1] \<and>
   map (weighted_sum spec_sign [(''0'', 100)] 100) [0..<1] = [1]"
  by (simp add: N_qubit_expectation_Z_def check_entry_def float_char_def digit_table_def
      weighted_sum_def spec_sign_def)

lemma weighted_sum_bound:
  assumes "list_all (\<lambda>(key, c). 0 \<le> c) cs" "0 < sh"
  shows "\<bar>weighted_sum Z_sign cs sh q\<bar> \<le> real_of_int (sum_list (map snd cs)) / real_of_int sh"
  using assms(1)
proof (induction cs)
  case Nil
  then show ?case by (simp add: weighted_sum_def)
next
  case (Cons kc cs)
  obtain key c where kc: "kc = (key, c)" by (cases kc)
  from Cons.prems kc have c: "0 \<le> c" and rest: "list_all (\<lambda>(key, c). 0 \<le> c) cs" by simp_all
  have "\<bar>Z_sign (key ! q) * (real_of_int c / real_of_int sh)\<bar> = real_of_int c / real_of_int sh"
    using c assms(2) by (simp add: Z_sign_def abs_mult)
  moreover have "weighted_sum Z_sign (kc # cs) sh q
      = Z_sign (key ! q) * (real_of_int c / real_of_int sh) + weighted_sum Z_sign cs sh q"
    by (simp add: kc weighted_sum_def)
  ultimately have "\<bar>weighted_sum Z_sign (kc # cs) sh q\<bar>
      \<le> real_of_int c / real_of_int sh + real_of_int (sum_list (map snd cs)) / real_of_int sh"
    using Cons.IH [OF rest] by linarith
  then show ?case by (simp add: kc add_divide_distrib)
qed

lemma N_qubit_expectation_Z_range:
  assumes "0 < sh" "valid_counts n cs sh"
  shows "\<exists>es. N_qubit_expectation_Z cs sh n = Inr es \<and> length es = n
            \<and> list_all (\<lambda>e. - 1 \<le> e \<and> e \<le> 1) es"
proof -
  from assms have ok: "outcome_keys n cs" and nn: "list_all (\<lambda>(key, c). 0 \<le> c) cs"
    and tot: "sum_list (map snd cs) = sh" by (simp_all add: valid_counts_def)
  have "\<bar>weighted_sum Z_sign cs sh q\<bar> \<le> 1" for q
    using weighted_sum_bound [OF nn assms(1), of q] assms(1) by (simp add: tot)
  then have "list_all (\<lambda>e. - 1 \<le> e \<and> e \<le> 1) (map (weighted_sum Z_sign cs sh) [0..<n])"
    by (simp add: list_all_iff abs_le_iff)
  with N_qubit_expectation_Z_sum [of sh n cs] assms(1) ok show ?thesis by simp
qed

section \<open>Binding and running the circuit\<close>

lemma bind_init:
  "bind (QiskitCircuit_init sh) [t]
     = Inr \<lparr>theta = Number t, shots = sh, circuit = create_circuit (Number t)\<rparr>"
  by (simp add: bind_def to_numbers_id QiskitCircuit_init_def create_circuit_def)

lemma bind_InrD:
  assumes "bind self parameters = Inr self1"
  shows "gate_names (circuit self1) = gate_names (circuit self)"
    and "length (circuit self1) = length (circuit self)"
    and "shots self1 = shots self"
    and "2 < length (circuit self)"
    and "length parameters = 1"
    and "circuit self1 = (circuit self)
           [2 := ((fst (circuit self ! 2))\<lparr>params := map Number parameters\<rparr>, snd (circuit self ! 2))]"
proof -
  from assms obtain t where p: "parameters = [t]"
    by (cases parameters; cases "tl parameters") (auto simp: bind_def to_numbers_id)
  from assms p show len: "2 < length (circuit self)"
    by (auto simp: bind_def to_numbers_id Let_def split: if_splits)
  from bind_single [OF len, of t] assms p
  have eq: "self1 = self\<lparr>theta := Number t,
      circuit := (circuit self)
        [2 := ((fst (circuit self ! 2))\<lparr>params := [Number t]\<rparr>, snd (circuit self ! 2))]\<rparr>"
    by simp
  show "length parameters = 1" by (simp add: p)
  show "shots self1 = shots self" by (simp add: eq)
  show "length (circuit self1) = length (circuit self)" by (simp add: eq)
  show "circuit self1 = (circuit self)
          [2 := ((fst (circuit self ! 2))\<lparr>params := map Number parameters\<rparr>, snd (circuit self ! 2))]"
    by (simp add: eq p)
  show "gate_names (circuit self1) = gate_names (circuit self)"
    unfolding gate_names_def eq using len
    by (intro nth_equalityI) (auto simp: nth_list_update split: prod.splits)
qed

lemma bound_params_update:
  "2 < length cd \<Longrightarrow> bound_params (cd[2 := (ins, qc)]) = params ins"
proof -
  assume len: "2 < length cd"
  have "drop 2 (cd[2 := (ins, qc)]) = (cd[2 := (ins, qc)]) ! 2 # drop (Suc 2) (cd[2 := (ins, qc)])"
    using len Cons_nth_drop_Suc [of 2 "cd[2 := (ins, qc)]"] by simp
  then show ?thesis using len by (cases qc) (simp add: bound_params_def)
qed

lemma bind_bound_params:
  assumes "bind self parameters = Inr self1"
  shows "bound_params (circuit self1) = map Number parameters"
  using bind_InrD(4,6) [OF assms] by (simp add: bound_params_update)

lemma run_InrD:
  assumes "run sim w self i = Inr (w1, self1, es)"
  shows "bind self i = Inr self1"
    and "w1 = w\<lparr>executions := executions w @ [circuit self1]\<rparr>"
    and "N_qubit_expectation_Z (sim (length (executions w)) (circuit self1) (shots self1))
           (shots self1) 1 = Inr es"
  using assms by (auto simp: run_def Let_def split: sum.splits)

lemma run_ok:
  assumes "bind self i = Inr self1" "shots self1 \<noteq> 0"
    and "outcome_keys 1 (sim (length (executions w)) (circuit self1) (shots self1))"
  shows "run sim w self i = Inr (w\<lparr>executions := executions w @ [circuit self1]\<rparr>, self1,
           [weighted_sum Z_sign (sim (length (executions w)) (circuit self1) (shots self1))
              (shots self1) 0])"
  using N_qubit_expectation_Z_sum [OF assms(2,3)] assms(1)
  by (simp add: run_def Let_def)

lemma run_singleE:
  assumes "2 < length (circuit self)" "shots self \<noteq> 0"
    and "\<And>n cd. outcome_keys 1 (sim n cd (shots self))"
  obtains self1 e where
    "run sim w self [t] = Inr (w\<lparr>executions := executions w @ [circuit self1]\<rparr>, self1, [e])"
    "shots self1 = shots self" "2 < length (circuit self1)"
    "bound_params (circuit self1) = [Number t]"
proof -
  from bind_single [OF assms(1), of t] obtain self1 where b: "bind self [t] = Inr self1" by blast
  note d = bind_InrD [OF b]
  have "run sim w self [t] = Inr (w\<lparr>executions := executions w @ [circuit self1]\<rparr>, self1,
           [weighted_sum Z_sign (sim (length (executions w)) (circuit self1) (shots self1))
              (shots self1) 0])"
    using assms(2,3) d(3) by (intro run_ok b) simp_all
  moreover have "bound_params (circuit self1) = [Number t]"
    using bind_bound_params [OF b] by simp
  ultimately show ?thesis using that d(2,3,4) by simp
qed

lemma example_backend_valid: "0 \<le> sh \<Longrightarrow> valid_counts 1 (example_backend n cd sh) sh"
  by (simp add: valid_counts_def outcome_keys_def example_backend_def is_bit_def)

lemma example_backend_keys: "outcome_keys 1 (example_backend n cd sh)"
  by (simp add: outcome_keys_def example_backend_def is_bit_def)

lemma N_qubit_expectation_Z_zero_shots:
  "N_qubit_expectation_Z cs 0 n = Inr es \<Longrightarrow> es = replicate n 0"
  by (cases cs) (auto simp: N_qubit_expectation_Z_def)

lemma sum_counts_nonneg:
  "list_all (\<lambda>(key, c). 0 \<le> c) (cs :: counts) \<Longrightarrow> 0 \<le> sum_list (map snd cs)"
  by (induction cs) auto

text \<open>
  Claim C3. When the simulator's answer for this execution is a valid frequency mapping
  (outcome bitstrings, non-negative counts that sum to the shot count), every entry of
  the expectation vector that \<^verbatim>\<open>run\<close> returns lies in the closed interval from -1
  to 1, and the vector has one entry per qubit; with a positive shot count and an
  accepted angle vector, \<^verbatim>\<open>run\<close> does return.
\<close>

theorem run_expectation_in_range:
  assumes "bind self angleVector = Inr self1"
    and "valid_counts 1 (sim (length (executions w)) (circuit self1) (shots self1)) (shots self1)"
  shows "(0 < shots self1 \<longrightarrow> (\<exists>w1 es. run sim w self angleVector = Inr (w1, self1, es)))
       \<and> (\<forall>w1 self2 es. run sim w self angleVector = Inr (w1, self2, es)
             \<longrightarrow> length es = 1 \<and> list_all (\<lambda>e. - 1 \<le> e \<and> e \<le> 1) es)"
proof -
  let ?cs = "sim (length (executions w)) (circuit self1) (shots self1)"
  have r: "run sim w self angleVector =
      (case N_qubit_expectation_Z ?cs (shots self1) 1 of
         Inl e \<Rightarrow> Inl e
       | Inr expects \<Rightarrow> Inr (w\<lparr>executions := executions w @ [circuit self1]\<rparr>, self1, expects))"
    using assms(1) by (simp add: run_def Let_def)
  have nn: "0 \<le> shots self1"
    using assms(2) sum_counts_nonneg [of ?cs] by (auto simp: valid_counts_def)
  have pos: "\<exists>es. N_qubit_expectation_Z ?cs (shots self1) 1 = Inr es \<and> length es = 1
            \<and> list_all (\<lambda>e. - 1 \<le> e \<and> e \<le> 1) es" if "0 < shots self1"
    using N_qubit_expectation_Z_range [OF that assms(2)] .
  have "length es = 1 \<and> list_all (\<lambda>e. - 1 \<le> e \<and> e \<le> 1) es"
    if "N_qubit_expectation_Z ?cs (shots self1) 1 = Inr es" for es
  proof (cases "shots self1 = 0")
    case True
    with that N_qubit_expectation_Z_zero_shots [of ?cs 1 es] show ?thesis by simp
  next
    case False
    with nn have "0 < shots self1" by simp
    from pos [OF this] that show ?thesis by auto
  qed
  with pos show ?thesis by (auto simp: r split: sum.splits)
qed

theorem run_expectation_in_range_witness:
  "\<exists>self1. bind (QiskitCircuit_init 100) [0] = Inr self1 \<and>
     valid_counts 1 (example_backend (length (executions \<lparr>heap = [], executions = []\<rparr>))
       (circuit self1) (shots self1)) (shots self1) \<and>
     0 < shots self1 \<and>
     (\<exists>w1 es. run example_backend \<lparr>heap = [], executions = []\<rparr> (QiskitCircuit_init 100) [0]
         = Inr (w1, self1, es)
        \<and> length es = 1 \<and> list_all (\<lambda>e. - 1 \<le> e \<and> e \<le> 1) es)"
proof -
  let ?q = "\<lparr>theta = Number 0, shots = 100, circuit = create_circuit (Number 0)\<rparr>"
  have b: "bind (QiskitCircuit_init 100) [0] = Inr ?q" by (rule bind_init)
  have p: "0 < shots ?q" by simp
  have v: "valid_counts 1 (example_backend (length (executions \<lparr>heap = [], executions = []\<rparr>))
      (circuit ?q) (shots ?q)) (shots ?q)"
    using example_backend_valid [of 100 0 "create_circuit (Number 0)"] by simp
  note c = run_expectation_in_range
    [where sim = example_backend and w = "\<lparr>heap = [], executions = []\<rparr>", OF b v]
  from c p obtain w1 es where
    r: "run example_backend \<lparr>heap = [], executions = []\<rparr> (QiskitCircuit_init 100) [0]
          = Inr (w1, ?q, es)"
    by blast
  with c have "length es = 1 \<and> list_all (\<lambda>e. - 1 \<le> e \<and> e \<le> 1) es" by blast
  with r b p v show ?thesis by blast
qed

text \<open>
  Claim C10. A call of \<^verbatim>\<open>run\<close> (which binds, then executes) leaves the gate structure
  of the circuit as it was: the sequence Hadamard, barrier, RY, barrier, measurement is
  preserved, every entry of the operation list other than the one at position 2 is
  untouched, and the entry at position 2 is still the RY gate on the same qubits, with
  only its parameter list replaced by the bound angle. (A call that raises in
  \<^verbatim>\<open>bind\<close> has not reached the assignment to the circuit.)
\<close>

theorem run_preserves_gate_structure:
  assumes "run sim w self i = Inr (w1, self1, es)"
    and "gate_names (circuit self) = [H, Barrier, RY, Barrier, Measure]"
  shows "gate_names (circuit self1) = [H, Barrier, RY, Barrier, Measure]
       \<and> circuit self1 = (circuit self)
           [2 := ((fst (circuit self ! 2))\<lparr>params := map Number i\<rparr>, snd (circuit self ! 2))]
       \<and> name (fst (circuit self1 ! 2)) = RY
       \<and> (\<forall>j. j \<noteq> 2 \<longrightarrow> circuit self1 ! j = circuit self ! j)"
proof -
  note b = bind_InrD [OF run_InrD(1) [OF assms(1)]]
  have "gate_names (circuit self) ! 2 = name (fst (circuit self ! 2))"
    using b(4) by (simp add: gate_names_def split: prod.splits)
  then have ry: "name (fst (circuit self ! 2)) = RY"
    by (simp add: assms(2))
  have "name (fst (circuit self1 ! 2)) = RY"
    using b(4) ry by (simp add: b(6))
  moreover have "\<forall>j. j \<noteq> 2 \<longrightarrow> circuit self1 ! j = circuit self ! j"
    by (simp add: b(6))
  ultimately show ?thesis
    using b(1) b(6) assms(2) by simp
qed

theorem run_preserves_gate_structure_witness:
  "\<exists>w1 self1 es.
     run example_backend \<lparr>heap = [], executions = []\<rparr> (QiskitCircuit_init 100) [1]
       = Inr (w1, self1, es)
     \<and> gate_names (circuit (QiskitCircuit_init 100)) = [H, Barrier, RY, Barrier, Measure]
     \<and> gate_names (circuit self1) = [H, Barrier, RY, Barrier, Measure]
     \<and> circuit self1 = create_circuit (Number 1)"
proof -
  let ?w = "\<lparr>heap = [], executions = []\<rparr>"
  let ?q = "\<lparr>theta = Number 1, shots = 100, circuit = create_circuit (Number 1)\<rparr>"
  have g: "gate_names (circuit (QiskitCircuit_init 100)) = [H, Barrier, RY, Barrier, Measure]"
    by (simp add: gate_names_def QiskitCircuit_init_def create_circuit_def)
  have k: "outcome_keys 1 (example_backend (length (executions ?w)) (circuit ?q) (shots ?q))"
    by (rule example_backend_keys)
  have r: "run example_backend ?w (QiskitCircuit_init 100) [1]
      = Inr (?w\<lparr>executions := executions ?w @ [circuit ?q]\<rparr>, ?q,
          [weighted_sum Z_sign (example_backend (length (executions ?w)) (circuit ?q) (shots ?q))
              (shots ?q) 0])"
    using run_ok [where sim = example_backend and w = ?w, OF bind_init [of 100 1] _ k] by simp
  from run_preserves_gate_structure [OF r g] r g show ?thesis by auto
qed

section \<open>The forward and the backward pass\<close>

lemma backward_single:
  assumes "saved_tensors c = [r, i]" "i < length (heap w)" "heap w ! i = [th] # rest"
    and "QiskitCirc c = Some qc" "2 < length (circuit qc)" "shots qc \<noteq> 0"
    and "\<And>n cd. outcome_keys 1 (sim n cd (shots qc))"
  obtains qc1 ep qc2 em where
    "run sim w qc [th + s] = Inr (w\<lparr>executions := executions w @ [circuit qc1]\<rparr>, qc1, [ep])"
    "run sim (w\<lparr>executions := executions w @ [circuit qc1]\<rparr>) qc1 [th]
       = Inr (w\<lparr>executions := executions w @ [circuit qc1, circuit qc2]\<rparr>, qc2, [em])"
    "bound_params (circuit qc1) = [Number (th + s)]"
    "bound_params (circuit qc2) = [Number th]"
    "backward_loop sim [0..<length [th]] (w, c, [th], [])
       = Inr (w\<lparr>executions := executions w @ [circuit qc1, circuit qc2]\<rparr>,
              c\<lparr>QiskitCirc := Some qc2\<rparr>, [th], [ep - em])"
    "\<And>grad_output. backward sim w c grad_output =
       (case tensor_mul [[ep - em]] grad_output of
          Inl e \<Rightarrow> Inl e
        | Inr g \<Rightarrow> Inr (w\<lparr>executions := executions w @ [circuit qc1, circuit qc2]\<rparr>,
                       c\<lparr>QiskitCirc := Some qc2\<rparr>, g))"
proof -
  let ?w1 = "\<lambda>q. w\<lparr>executions := executions w @ [circuit q]\<rparr>"
  obtain qc1 ep where r1: "run sim w qc [th + s] = Inr (?w1 qc1, qc1, [ep])"
    and q1: "shots qc1 = shots qc" "2 < length (circuit qc1)" "bound_params (circuit qc1) = [Number (th + s)]"
    by (rule run_singleE [where sim = sim and w = w and t = "th + s", OF assms(5,6,7)]) (rule that)
  have k1: "\<And>n cd. outcome_keys 1 (sim n cd (shots qc1))" and s1: "shots qc1 \<noteq> 0"
    using assms(6,7) q1(1) by simp_all
  obtain qc2 em where r2: "run sim (?w1 qc1) qc1 [th]
        = Inr ((?w1 qc1)\<lparr>executions := executions (?w1 qc1) @ [circuit qc2]\<rparr>, qc2, [em])"
    and "shots qc2 = shots qc1" "2 < length (circuit qc2)"
    and q2: "bound_params (circuit qc2) = [Number th]"
    by (rule run_singleE [where sim = sim and w = "?w1 qc1" and t = th, OF q1(2) s1 k1]) (rule that)
  have r2': "run sim (?w1 qc1) qc1 [th]
        = Inr (w\<lparr>executions := executions w @ [circuit qc1, circuit qc2]\<rparr>, qc2, [em])"
    using r2 by simp
  have loop: "backward_loop sim [0..<length [th]] (w, c, [th], [])
       = Inr (w\<lparr>executions := executions w @ [circuit qc1, circuit qc2]\<rparr>,
              c\<lparr>QiskitCirc := Some qc2\<rparr>, [th], [ep - em])"
    using r1 r2' assms(4) by (simp add: Let_def QiskitCirc_run_def)
  have "backward sim w c grad_output =
       (case tensor_mul [[ep - em]] grad_output of
          Inl e \<Rightarrow> Inl e
        | Inr g \<Rightarrow> Inr (w\<lparr>executions := executions w @ [circuit qc1, circuit qc2]\<rparr>,
                       c\<lparr>QiskitCirc := Some qc2\<rparr>, g))" for grad_output
    using assms(1-3) loop by (simp add: backward_def to_numbers_id Let_def)
  with r1 r2' q1(3) q2 loop show ?thesis using that by blast
qed

lemma tensor_mul_row: "length gs = length ds \<Longrightarrow> tensor_mul [ds] [gs] = Inr [map2 (*) ds gs]"
  by (simp add: tensor_mul_def broadcast2_def mul_row_def collect_map_Inr [where g = "\<lambda>(x, y). x * y"] 
       split: prod.splits)

lemma forward_InrD:
  assumes "forward sim w c i = Inr (w1, c1, r)"
  obtains i0 rest qc1 exp_value where
    "i < length (heap w)" "heap w ! i = i0 # rest"
    "run sim w (case QiskitCirc c of None \<Rightarrow> QiskitCircuit_init 100 | Some q \<Rightarrow> q) i0
       = Inr (w\<lparr>executions := executions w @ [circuit qc1]\<rparr>, qc1, exp_value)"
    "w1 = w\<lparr>executions := executions w @ [circuit qc1], heap := heap w @ [[exp_value]]\<rparr>"
    "c1 = c\<lparr>QiskitCirc := Some qc1, saved_tensors := [r, i]\<rparr>"
    "r = length (heap w)"
proof -
  let ?qc = "case QiskitCirc c of None \<Rightarrow> QiskitCircuit_init 100 | Some q \<Rightarrow> q"
  from assms have len: "i < length (heap w)"
    by (auto simp: forward_def Let_def split: if_splits)
  from assms len obtain i0 rest where h: "heap w ! i = i0 # rest"
    by (cases "heap w ! i") (auto simp: forward_def Let_def split: if_splits)
  have qc: "the (QiskitCirc (if QiskitCirc c = None then c\<lparr>QiskitCirc := Some (QiskitCircuit_init 100)\<rparr> else c)) = ?qc"
    by (cases "QiskitCirc c") simp_all
  from assms len h qc obtain wa qc1 exp_value where
    r: "run sim w ?qc i0 = Inr (wa, qc1, exp_value)"
    by (cases "run sim w ?qc i0") (auto simp: forward_def Let_def)
  note d = run_InrD [OF r]
  from assms len h qc r have
    "w1 = wa\<lparr>heap := heap wa @ [[exp_value]]\<rparr>"
    "c1 = c\<lparr>QiskitCirc := Some qc1, saved_tensors := [r, i]\<rparr>"
    "r = length (heap wa)"
    by (auto simp: forward_def Let_def split: if_splits)
  with d(2) r len h show ?thesis using that [of i0 rest qc1 exp_value] by simp
qed

subsection \<open>A concrete run\<close>

lemmas eval_defs = forward_def backward_def QiskitCirc_run_def run_def bind_def to_numbers_id N_qubit_expectation_Z_def
  check_entry_def float_char_def digit_table_def example_backend_def fresh_ctx_def
  QiskitCircuit_init_def create_circuit_def Let_def tensor_mul_def mul_row_def broadcast2_def

lemma example_forward:
  "forward example_backend \<lparr>heap = [[[th]]], executions = []\<rparr> fresh_ctx 0
     = Inr (\<lparr>heap = [[[th]], [[1]]], executions = [create_circuit (Number th)]\<rparr>,
            \<lparr>QiskitCirc = Some \<lparr>theta = Number th, shots = 100, circuit = create_circuit (Number th)\<rparr>,
             saved_tensors = [1, 0]\<rparr>, 1)"
  by (simp add: eval_defs)

lemma example_backward:
  "backward example_backend \<lparr>heap = [[[th]], [[1]]], executions = [create_circuit (Number th)]\<rparr>
      \<lparr>QiskitCirc = Some \<lparr>theta = Number th, shots = 100, circuit = create_circuit (Number th)\<rparr>,
             saved_tensors = [1, 0]\<rparr> [[g]]
     = Inr (\<lparr>heap = [[[th]], [[1]]],
              executions = [create_circuit (Number th), create_circuit (Number (th + pi / 2)),
                            create_circuit (Number th)]\<rparr>,
            \<lparr>QiskitCirc = Some \<lparr>theta = Number th, shots = 100, circuit = create_circuit (Number th)\<rparr>,
             saved_tensors = [1, 0]\<rparr>, [[g / 50]])"
  by (simp add: eval_defs s_def)


subsection \<open>Backward after forward\<close>

lemma saved_input_after_forward:
  assumes "i < length hp"
  shows "saved_input (w\<lparr>executions := ex, heap := hp @ [t]\<rparr>) (c\<lparr>QiskitCirc := q, saved_tensors := [r, i]\<rparr>)
           = Some (hp ! i)"
  using assms by (simp add: saved_input_def nth_append)

lemma forward_backward:
  assumes "forward sim w c i = Inr (w1, c1, r)"
    and "shots (case QiskitCirc c of None \<Rightarrow> QiskitCircuit_init 100 | Some q \<Rightarrow> q) = sh" "sh \<noteq> 0"
    and "\<And>n cd. outcome_keys 1 (sim n cd sh)"
  obtains th rest qc1 qca ep qc2 em where
    "heap w ! i = [th] # rest" "saved_input w1 c1 = Some ([th] # rest)" "QiskitCirc c1 = Some qc1"
    "run sim w1 qc1 [th + s] = Inr (w1\<lparr>executions := executions w1 @ [circuit qca]\<rparr>, qca, [ep])"
    "run sim (w1\<lparr>executions := executions w1 @ [circuit qca]\<rparr>) qca [th]
       = Inr (w1\<lparr>executions := executions w1 @ [circuit qca, circuit qc2]\<rparr>, qc2, [em])"
    "bound_params (circuit qca) = [Number (th + s)]"
    "bound_params (circuit qc2) = [Number th]"
    "backward_loop sim [0..<length [th]] (w1, c1, [th], [])
       = Inr (w1\<lparr>executions := executions w1 @ [circuit qca, circuit qc2]\<rparr>,
              c1\<lparr>QiskitCirc := Some qc2\<rparr>, [th], [ep - em])"
    "\<And>grad_output. backward sim w1 c1 grad_output =
       (case tensor_mul [[ep - em]] grad_output of
          Inl e \<Rightarrow> Inl e
        | Inr g \<Rightarrow> Inr (w1\<lparr>executions := executions w1 @ [circuit qca, circuit qc2]\<rparr>,
                       c1\<lparr>QiskitCirc := Some qc2\<rparr>, g))"
proof -
  let ?qc = "case QiskitCirc c of None \<Rightarrow> QiskitCircuit_init 100 | Some q \<Rightarrow> q"
  obtain i0 rest qc1 exp_value where
    f: "i < length (heap w)" "heap w ! i = i0 # rest"
      "run sim w ?qc i0 = Inr (w\<lparr>executions := executions w @ [circuit qc1]\<rparr>, qc1, exp_value)"
      "w1 = w\<lparr>executions := executions w @ [circuit qc1], heap := heap w @ [[exp_value]]\<rparr>"
      "c1 = c\<lparr>QiskitCirc := Some qc1, saved_tensors := [r, i]\<rparr>"
      "r = length (heap w)"
    by (rule forward_InrD [OF assms(1)])
  note b = bind_InrD [OF run_InrD(1) [OF f(3)]]
  from b(5) obtain th where i0: "i0 = [th]"
    by (cases i0; cases "tl i0") auto
  have st: "saved_tensors c1 = [r, i]" "i < length (heap w1)" "heap w1 ! i = [th] # rest"
    "QiskitCirc c1 = Some qc1" "2 < length (circuit qc1)" "shots qc1 \<noteq> 0"
    using f b(2,3,4) i0 assms(2,3) by (simp_all add: nth_append)
  have keys: "\<And>n cd. outcome_keys 1 (sim n cd (shots qc1))"
    using assms(2,4) b(3) by simp
  have si: "saved_input w1 c1 = Some ([th] # rest)"
    using f(1,2) i0 unfolding f(4,5) by (simp add: saved_input_after_forward)
  have h: "heap w ! i = [th] # rest" using f(2) i0 by simp
  show ?thesis
    by (rule backward_single [where sim = sim, OF st keys]) (rule that [OF h si st(4)])
qed

lemma tensor_mul_1x1: "tensor_mul [[d]] [[g]] = Inr [[d * g]]"
  by (simp add: tensor_mul_def mul_row_def broadcast2_def)

text \<open>
  Claim C6. After a forward pass has saved its input (a row \<open>v\<close> of angles), a call of
  \<^verbatim>\<open>backward\<close> returns and has performed exactly \<open>2 * length v\<close> further circuit
  executions: two new executions for every parameter index, none shared with the
  forward pass. (The simulator is assumed to answer with outcome bitstrings and the shot
  count is not zero; forward accepts rows of length 1 only.)
\<close>

theorem backward_execution_count:
  assumes "forward sim w c i = Inr (w1, c1, r)"
    and "shots (case QiskitCirc c of None \<Rightarrow> QiskitCircuit_init 100 | Some q \<Rightarrow> q) = sh" "sh \<noteq> 0"
    and "\<And>n cd. outcome_keys 1 (sim n cd sh)"
  shows "\<exists>v rest w2 c2 grad. saved_input w1 c1 = Some (v # rest)
           \<and> backward sim w1 c1 [[g]] = Inr (w2, c2, grad)
           \<and> length (executions w2) = length (executions w1) + 2 * length v"
proof -
  obtain th rest qc1 qca ep qc2 em where
    "heap w ! i = [th] # rest" and si: "saved_input w1 c1 = Some ([th] # rest)"
    and "QiskitCirc c1 = Some qc1"
    and "run sim w1 qc1 [th + s] = Inr (w1\<lparr>executions := executions w1 @ [circuit qca]\<rparr>, qca, [ep])"
    and "run sim (w1\<lparr>executions := executions w1 @ [circuit qca]\<rparr>) qca [th]
       = Inr (w1\<lparr>executions := executions w1 @ [circuit qca, circuit qc2]\<rparr>, qc2, [em])"
    and "bound_params (circuit qca) = [Number (th + s)]"
    and "bound_params (circuit qc2) = [Number th]"
    and "backward_loop sim [0..<length [th]] (w1, c1, [th], [])
       = Inr (w1\<lparr>executions := executions w1 @ [circuit qca, circuit qc2]\<rparr>,
              c1\<lparr>QiskitCirc := Some qc2\<rparr>, [th], [ep - em])"
    and bw: "\<And>grad_output. backward sim w1 c1 grad_output =
       (case tensor_mul [[ep - em]] grad_output of
          Inl e \<Rightarrow> Inl e
        | Inr g \<Rightarrow> Inr (w1\<lparr>executions := executions w1 @ [circuit qca, circuit qc2]\<rparr>,
                       c1\<lparr>QiskitCirc := Some qc2\<rparr>, g))"
    by (rule forward_backward [OF assms]) (rule that)
  have "backward sim w1 c1 [[g]]
      = Inr (w1\<lparr>executions := executions w1 @ [circuit qca, circuit qc2]\<rparr>,
             c1\<lparr>QiskitCirc := Some qc2\<rparr>, [[(ep - em) * g]])"
    by (simp add: bw tensor_mul_1x1)
  moreover have "length (executions (w1\<lparr>executions := executions w1 @ [circuit qca, circuit qc2]\<rparr>))
      = length (executions w1) + 2 * length [th]"
    by simp
  ultimately show ?thesis using si by blast
qed

text \<open>
  Claim C7. After a forward pass, \<^verbatim>\<open>backward\<close> collects the per-parameter
  contributions computed by its loop in a gradient vector that has the length of the saved
  input row, and returns that vector multiplied entry by entry with the upstream
  gradient.
\<close>

theorem backward_gradient_vector:
  assumes "forward sim w c i = Inr (w1, c1, r)"
    and "shots (case QiskitCirc c of None \<Rightarrow> QiskitCircuit_init 100 | Some q \<Rightarrow> q) = sh" "sh \<noteq> 0"
    and "\<And>n cd. outcome_keys 1 (sim n cd sh)"
  shows "\<exists>v rest qc1 w2 qc2 v' gradient.
           saved_input w1 c1 = Some (v # rest) \<and> QiskitCirc c1 = Some qc1
         \<and> backward_loop sim [0..<length v] (w1, c1, v, [])
             = Inr (w2, c1\<lparr>QiskitCirc := Some qc2\<rparr>, v', gradient)
         \<and> length gradient = length v
         \<and> (\<forall>gs. length gs = length v \<longrightarrow>
               backward sim w1 c1 [gs] = Inr (w2, c1\<lparr>QiskitCirc := Some qc2\<rparr>, [map2 (*) gradient gs]))"
proof -
  obtain th rest qc1 qca ep qc2 em where
    "heap w ! i = [th] # rest" and si: "saved_input w1 c1 = Some ([th] # rest)"
    and q: "QiskitCirc c1 = Some qc1"
    and "run sim w1 qc1 [th + s] = Inr (w1\<lparr>executions := executions w1 @ [circuit qca]\<rparr>, qca, [ep])"
    and "run sim (w1\<lparr>executions := executions w1 @ [circuit qca]\<rparr>) qca [th]
       = Inr (w1\<lparr>executions := executions w1 @ [circuit qca, circuit qc2]\<rparr>, qc2, [em])"
    and "bound_params (circuit qca) = [Number (th + s)]"
    and "bound_params (circuit qc2) = [Number th]"
    and loop: "backward_loop sim [0..<length [th]] (w1, c1, [th], [])
       = Inr (w1\<lparr>executions := executions w1 @ [circuit qca, circuit qc2]\<rparr>,
              c1\<lparr>QiskitCirc := Some qc2\<rparr>, [th], [ep - em])"
    and bw: "\<And>grad_output. backward sim w1 c1 grad_output =
       (case tensor_mul [[ep - em]] grad_output of
          Inl e \<Rightarrow> Inl e
        | Inr g \<Rightarrow> Inr (w1\<lparr>executions := executions w1 @ [circuit qca, circuit qc2]\<rparr>,
                       c1\<lparr>QiskitCirc := Some qc2\<rparr>, g))"
    by (rule forward_backward [OF assms]) (rule that)
  have "backward sim w1 c1 [gs]
      = Inr (w1\<lparr>executions := executions w1 @ [circuit qca, circuit qc2]\<rparr>,
             c1\<lparr>QiskitCirc := Some qc2\<rparr>, [map2 (*) [ep - em] gs])"
    if "length gs = length [th]" for gs
    using that by (simp add: bw tensor_mul_row)
  with si q loop show ?thesis
    by (intro exI [of _ "[th]"] exI [of _ rest] exI [of _ qc1] exI [of _ qc2] exI [of _ "[ep - em]"]
          exI [of _ "w1\<lparr>executions := executions w1 @ [circuit qca, circuit qc2]\<rparr>"]) simp
qed


lemma backward_longer_input:
  assumes "saved_tensors c = [r, i]" "i < length (heap w)" "heap w ! i = (x # y # v) # rest"
    and "QiskitCirc c = Some qc"
  shows "backward sim w c grad_output = Inl ValueError"
proof -
  have u: "[0..<Suc (Suc (length v))] = 0 # [Suc 0..<Suc (Suc (length v))]"
    by (rule upt_conv_Cons) simp
  have "run sim w qc ((x # y # v)[0 := (x # y # v) ! 0 + s]) = Inl ValueError"
    by (simp add: run_def bind_wrong_length)
  then show ?thesis
    using assms
    by (simp add: backward_def QiskitCirc_run_def to_numbers_id Let_def u del: upt_Suc)
qed

lemma example_shots:
  "shots (case QiskitCirc fresh_ctx of None \<Rightarrow> QiskitCircuit_init 100 | Some q \<Rightarrow> q) = 100"
  by (simp add: fresh_ctx_def QiskitCircuit_init_def)

theorem backward_execution_count_witness:
  "\<exists>w1 c1 r. forward example_backend \<lparr>heap = [[[0]]], executions = []\<rparr> fresh_ctx 0 = Inr (w1, c1, r)
     \<and> shots (case QiskitCirc fresh_ctx of None \<Rightarrow> QiskitCircuit_init 100 | Some q \<Rightarrow> q) = 100
     \<and> (100 :: int) \<noteq> 0
     \<and> (\<forall>n cd. outcome_keys 1 (example_backend n cd 100))
     \<and> (\<exists>v rest w2 c2 grad. saved_input w1 c1 = Some (v # rest)
           \<and> backward example_backend w1 c1 [[1]] = Inr (w2, c2, grad)
           \<and> length (executions w2) = length (executions w1) + 2 * length v)"
proof -
  note f = example_forward [of 0]
  have nz: "(100 :: int) \<noteq> 0" by simp
  note c = backward_execution_count
    [where sim = example_backend and g = 1, OF f example_shots nz example_backend_keys]
  have k: "\<forall>n cd. outcome_keys 1 (example_backend n cd 100)"
    by (intro allI example_backend_keys)
  from f example_shots nz k c show ?thesis by blast
qed

theorem backward_gradient_vector_witness:
  "\<exists>w1 c1 r. forward example_backend \<lparr>heap = [[[0]]], executions = []\<rparr> fresh_ctx 0 = Inr (w1, c1, r)
     \<and> shots (case QiskitCirc fresh_ctx of None \<Rightarrow> QiskitCircuit_init 100 | Some q \<Rightarrow> q) = 100
     \<and> (100 :: int) \<noteq> 0
     \<and> (\<forall>n cd. outcome_keys 1 (example_backend n cd 100))
     \<and> (\<exists>w2 c2. backward example_backend w1 c1 [[3]] = Inr (w2, c2, [[3 / 50]]))"
proof -
  note f = example_forward [of 0]
  have nz: "(100 :: int) \<noteq> 0" by simp
  from backward_gradient_vector
    [where sim = example_backend, OF f example_shots nz example_backend_keys]
  obtain w2 c2 gradient where "backward example_backend
      \<lparr>heap = [[[0]], [[1]]], executions = [create_circuit (Number 0)]\<rparr>
      \<lparr>QiskitCirc = Some \<lparr>theta = Number 0, shots = 100, circuit = create_circuit (Number 0)\<rparr>,
        saved_tensors = [1, 0]\<rparr> [[3]] = Inr (w2, c2, [map2 (*) gradient [3]])"
    by (auto simp: saved_input_def)
  moreover note example_backward [of 0 3]
  ultimately have "backward example_backend
      \<lparr>heap = [[[0]], [[1]]], executions = [create_circuit (Number 0)]\<rparr>
      \<lparr>QiskitCirc = Some \<lparr>theta = Number 0, shots = 100, circuit = create_circuit (Number 0)\<rparr>,
        saved_tensors = [1, 0]\<rparr> [[3]] = Inr (w2, c2, [[3 / 50]])"
    by simp
  with f example_shots nz example_backend_keys show ?thesis by blast
qed

text \<open>
  Claim C1 says that for parameter index \<open>k\<close> the circuit is evaluated at the saved
  input with entry \<open>k\<close> increased by \<open>s = pi / 2\<close> and at the saved input with entry
  \<open>k\<close> decreased by \<open>s\<close>. The code evaluates at the shifted-up vector and then at the
  shifted-up vector shifted down again, which is the saved input itself: forward at the
  input \<open>[0]\<close> followed by backward executes the circuit at \<open>0\<close> (forward), at
  \<open>pi / 2\<close> and at \<open>0\<close>; it is never executed at \<open>- pi / 2\<close>.
\<close>

theorem backward_shift_down_not_evaluated:
  "\<exists>w1 c1 r w2 c2 g.
     forward example_backend \<lparr>heap = [[[0]]], executions = []\<rparr> fresh_ctx 0 = Inr (w1, c1, r)
     \<and> backward example_backend w1 c1 [[1]] = Inr (w2, c2, g)
     \<and> evaluated_at w2 = [[Number 0], [Number (pi / 2)], [Number 0]]
     \<and> [Number (- (pi / 2))] \<notin> set (evaluated_at w2)"
proof -
  let ?w2 = "\<lparr>heap = [[[0]], [[1]]],
              executions = [create_circuit (Number 0), create_circuit (Number (0 + pi / 2)),
                            create_circuit (Number 0)]\<rparr>"
  have e: "evaluated_at ?w2 = [[Number 0], [Number (pi / 2)], [Number 0]]"
    by (simp add: evaluated_at_def bound_params_def create_circuit_def)
  have "[Number (- (pi / 2))] \<notin> set (evaluated_at ?w2)"
    unfolding e by simp
  with e example_forward [of 0] example_backward [of 0 1] show ?thesis by blast
qed

text \<open>
  Claim C8, as the code has it. A successful \<^verbatim>\<open>forward\<close> runs the circuit at row 0 of
  the input, allocates a new tensor holding the expectation vector unchanged, returns it,
  and saves two references: to that output tensor and to the caller's input tensor
  itself (no copy is made). At that moment the saved input is the input that was used.
\<close>

theorem forward_saves_references:
  assumes "forward sim w c i = Inr (w1, c1, r)"
  shows "\<exists>i0 rest wa qc1 exp_value.
           heap w ! i = i0 # rest
         \<and> run sim w (case QiskitCirc c of None \<Rightarrow> QiskitCircuit_init 100 | Some q \<Rightarrow> q) i0
             = Inr (wa, qc1, exp_value)
         \<and> r = length (heap w) \<and> heap w1 = heap w @ [[exp_value]] \<and> heap w1 ! r = [exp_value]
         \<and> saved_tensors c1 = [r, i] \<and> saved_input w1 c1 = Some (heap w ! i)"
proof -
  let ?qc = "case QiskitCirc c of None \<Rightarrow> QiskitCircuit_init 100 | Some q \<Rightarrow> q"
  obtain i0 rest qc1 exp_value where
    f: "i < length (heap w)" "heap w ! i = i0 # rest"
      "run sim w ?qc i0 = Inr (w\<lparr>executions := executions w @ [circuit qc1]\<rparr>, qc1, exp_value)"
      "w1 = w\<lparr>executions := executions w @ [circuit qc1], heap := heap w @ [[exp_value]]\<rparr>"
      "c1 = c\<lparr>QiskitCirc := Some qc1, saved_tensors := [r, i]\<rparr>"
      "r = length (heap w)"
    by (rule forward_InrD [OF assms(1)])
  have "saved_input w1 c1 = Some (heap w ! i)"
    unfolding f(4,5) using f(1) by (rule saved_input_after_forward)
  moreover have "heap w1 = heap w @ [[exp_value]]" "heap w1 ! r = [exp_value]" "saved_tensors c1 = [r, i]"
    by (simp_all add: f(4,5,6))
  ultimately show ?thesis using f(2,3,6) by blast
qed

theorem forward_saves_references_witness:
  "\<exists>w1 c1 r i0 rest wa qc1 exp_value.
     forward example_backend \<lparr>heap = [[[0]]], executions = []\<rparr> fresh_ctx 0 = Inr (w1, c1, r)
     \<and> heap \<lparr>heap = [[[0]]], executions = []\<rparr> ! 0 = i0 # rest
     \<and> run example_backend \<lparr>heap = [[[0]]], executions = []\<rparr>
          (case QiskitCirc fresh_ctx of None \<Rightarrow> QiskitCircuit_init 100 | Some q \<Rightarrow> q) i0
             = Inr (wa, qc1, exp_value)
     \<and> heap w1 ! r = [exp_value] \<and> exp_value = [1]
     \<and> saved_tensors c1 = [r, 0] \<and> saved_input w1 c1 = Some [[0]]"
proof -
  note f = example_forward [of 0]
  from forward_saves_references [OF f] f show ?thesis by auto
qed

text \<open>
  Claim C8 as worded fails: the input is not saved by value. When the caller later
  writes to the tensor it passed to forward, the saved input changes with it, and
  backward then shifts the new value.
\<close>

theorem forward_saved_input_shared_counterexample:
  "\<exists>w1 c1 r w2 c2 g.
     forward example_backend \<lparr>heap = [[[0]]], executions = []\<rparr> fresh_ctx 0 = Inr (w1, c1, r)
     \<and> saved_input w1 c1 = Some [[0]]
     \<and> saved_input (tensor_assign w1 0 [[1]]) c1 = Some [[1]]
     \<and> backward example_backend (tensor_assign w1 0 [[1]]) c1 [[1]] = Inr (w2, c2, g)
     \<and> evaluated_at w2 = [[Number 0], [Number (1 + pi / 2)], [Number 1]]"
proof -
  let ?w1 = "\<lparr>heap = [[[0]], [[1]]], executions = [create_circuit (Number 0)]\<rparr>"
  let ?c1 = "\<lparr>QiskitCirc = Some \<lparr>theta = Number 0, shots = 100, circuit = create_circuit (Number 0)\<rparr>,
             saved_tensors = [1, 0]\<rparr>"
  have a: "saved_input ?w1 ?c1 = Some [[0]]" by (simp add: saved_input_def)
  have b: "saved_input (tensor_assign ?w1 0 [[1]]) ?c1 = Some [[1]]"
    by (simp add: saved_input_def tensor_assign_def)
  have c: "backward example_backend (tensor_assign ?w1 0 [[1]]) ?c1 [[1]]
     = Inr (\<lparr>heap = [[[1]], [[1]]],
              executions = [create_circuit (Number 0), create_circuit (Number (1 + pi / 2)),
                            create_circuit (Number 1)]\<rparr>, ?c1\<lparr>QiskitCirc := Some \<lparr>theta = Number 1, shots = 100, circuit = create_circuit (Number 1)\<rparr>\<rparr>, [[1 / 50]])"
    by (simp add: eval_defs s_def tensor_assign_def)
  have d: "evaluated_at \<lparr>heap = [[[1]], [[1]]],
              executions = [create_circuit (Number 0), create_circuit (Number (1 + pi / 2)),
                            create_circuit (Number 1)]\<rparr> = [[Number 0], [Number (1 + pi / 2)], [Number 1]]"
    by (simp add: evaluated_at_def bound_params_def create_circuit_def)
  from example_forward [of 0] a b c d show ?thesis by blast
qed


text \<open>
  The evaluation points of backward in general: after a forward pass at the angle
  \<open>th\<close>, backward executes the circuit at \<open>th + s\<close> and then at \<open>th\<close>.
\<close>

lemma backward_evaluation_points:
  assumes "forward sim w c i = Inr (w1, c1, r)"
    and "shots (case QiskitCirc c of None \<Rightarrow> QiskitCircuit_init 100 | Some q \<Rightarrow> q) = sh" "sh \<noteq> 0"
    and "\<And>n cd. outcome_keys 1 (sim n cd sh)"
  shows "\<exists>th rest w2 c2 grad. saved_input w1 c1 = Some ([th] # rest)
           \<and> backward sim w1 c1 [[g]] = Inr (w2, c2, grad)
           \<and> evaluated_at w2 = evaluated_at w1 @ [[Number (th + s)], [Number th]]"
proof -
  obtain th rest qc1 qca ep qc2 em where
    "heap w ! i = [th] # rest" and si: "saved_input w1 c1 = Some ([th] # rest)"
    and "QiskitCirc c1 = Some qc1"
    and "run sim w1 qc1 [th + s] = Inr (w1\<lparr>executions := executions w1 @ [circuit qca]\<rparr>, qca, [ep])"
    and "run sim (w1\<lparr>executions := executions w1 @ [circuit qca]\<rparr>) qca [th]
       = Inr (w1\<lparr>executions := executions w1 @ [circuit qca, circuit qc2]\<rparr>, qc2, [em])"
    and up: "bound_params (circuit qca) = [Number (th + s)]"
    and down: "bound_params (circuit qc2) = [Number th]"
    and "backward_loop sim [0..<length [th]] (w1, c1, [th], [])
       = Inr (w1\<lparr>executions := executions w1 @ [circuit qca, circuit qc2]\<rparr>,
              c1\<lparr>QiskitCirc := Some qc2\<rparr>, [th], [ep - em])"
    and bw: "\<And>grad_output. backward sim w1 c1 grad_output =
       (case tensor_mul [[ep - em]] grad_output of
          Inl e \<Rightarrow> Inl e
        | Inr g \<Rightarrow> Inr (w1\<lparr>executions := executions w1 @ [circuit qca, circuit qc2]\<rparr>,
                       c1\<lparr>QiskitCirc := Some qc2\<rparr>, g))"
    by (rule forward_backward [OF assms]) (rule that)
  have "backward sim w1 c1 [[g]]
      = Inr (w1\<lparr>executions := executions w1 @ [circuit qca, circuit qc2]\<rparr>,
             c1\<lparr>QiskitCirc := Some qc2\<rparr>, [[(ep - em) * g]])"
    by (simp add: bw tensor_mul_1x1)
  moreover have "evaluated_at (w1\<lparr>executions := executions w1 @ [circuit qca, circuit qc2]\<rparr>)
      = evaluated_at w1 @ [[Number (th + s)], [Number th]]"
    by (simp add: evaluated_at_def up down)
  ultimately show ?thesis using si by blast
qed

section \<open>Backward on any context\<close>

text \<open>
  Facts about \<^verbatim>\<open>backward\<close> that do not depend on how the context was produced: a call
  that returns has executed the circuit twice per entry of the saved input row, has left
  every tensor on the heap as it was (the shifts are applied to the fresh list made by
  \<^verbatim>\<open>to_numbers\<close>, not to the saved tensor), and has left the saved references on the
  context: the code of backward does not release the saved forward state itself.
\<close>

lemma QiskitCirc_run_InrD:
  assumes "QiskitCirc_run sim w c i = Inr (w1, c1, es)"
  shows "heap w1 = heap w" and "length (executions w1) = Suc (length (executions w))"
    and "saved_tensors c1 = saved_tensors c"
proof -
  from assms obtain qc where q: "QiskitCirc c = Some qc"
    by (cases "QiskitCirc c") (auto simp: QiskitCirc_run_def)
  from assms q obtain qc1 where r: "run sim w qc i = Inr (w1, qc1, es)"
    and c1: "c1 = c\<lparr>QiskitCirc := Some qc1\<rparr>"
    by (cases "run sim w qc i") (auto simp: QiskitCirc_run_def)
  note d = run_InrD(2) [OF r]
  show "heap w1 = heap w" by (simp add: d)
  show "length (executions w1) = Suc (length (executions w))" by (simp add: d)
  show "saved_tensors c1 = saved_tensors c" by (simp add: c1)
qed

lemma backward_loop_heap:
  "backward_loop sim ks (w, c, xs, g) = Inr (w', c', xs', g') \<Longrightarrow>
   heap w' = heap w \<and> length (executions w') = length (executions w) + 2 * length ks
   \<and> length g' = length g + length ks \<and> saved_tensors c' = saved_tensors c"
proof (induction ks arbitrary: w c xs g)
  case Nil
  then show ?case by simp
next
  case (Cons k ks)
  let ?xs1 = "xs[k := xs ! k + s]"
  let ?xs2 = "?xs1[k := ?xs1 ! k - s]"
  from Cons.prems obtain w1 c1 ep eps where
    r1: "QiskitCirc_run sim w c ?xs1 = Inr (w1, c1, ep # eps)"
    by (cases "QiskitCirc_run sim w c ?xs1") (auto simp: Let_def split: list.splits)
  from Cons.prems r1 obtain w2 c2 em ems where
    r2: "QiskitCirc_run sim w1 c1 ?xs2 = Inr (w2, c2, em # ems)"
    by (cases "QiskitCirc_run sim w1 c1 ?xs2") (auto simp: Let_def split: list.splits)
  from Cons.prems r1 r2 have
    rest: "backward_loop sim ks (w2, c2, ?xs2, g @ [ep - em]) = Inr (w', c', xs', g')"
    by (simp add: Let_def)
  note d1 = QiskitCirc_run_InrD [OF r1] and d2 = QiskitCirc_run_InrD [OF r2]
  from Cons.IH [OF rest] d1 d2 show ?case by simp
qed


lemma backward_count_any_length:
  assumes "backward sim w c grad_output = Inr (w', c', grad)" "saved_input w c = Some (v # rest)"
  shows "length (executions w') = length (executions w) + 2 * length v"
proof -
  from assms(2) obtain r i where
    st: "saved_tensors c = [r, i]" "i < length (heap w)" "heap w ! i = v # rest"
    by (auto simp: saved_input_def split: list.splits if_splits)
  from assms(1) st obtain w1 c1 xs gradient where
    l: "backward_loop sim [0..<length v] (w, c, v, []) = Inr (w1, c1, xs, gradient)"
    by (cases "backward_loop sim [0..<length v] (w, c, v, [])")
       (auto simp: backward_def to_numbers_id)
  from assms(1) st l have "w' = w1"
    by (auto simp: backward_def to_numbers_id split: sum.splits)
  with backward_loop_heap [OF l] show ?thesis by simp
qed

text \<open>
  With an empty saved row the loop body never runs, the evaluator is never looked up,
  and backward returns the empty gradient row.
\<close>

lemma backward_empty_row:
  assumes "saved_tensors c = [r, i]" "i < length (heap w)" "heap w ! i = [] # rest"
  shows "backward sim w c [[g]] = Inr (w, c, [[]])"
  using assms
  by (simp add: backward_def to_numbers_id tensor_mul_def mul_row_def broadcast2_def)

section \<open>Backward without, and with, saved forward state\<close>





end
